theory Spec2Isabelle
  imports Complex_Main "HOL-Library.Sublist" "HOL-Library.AList"
begin

section \<open>Python strings\<close>

text \<open>
  A Python \<open>str\<close> is modelled as a \<^typ>\<open>string\<close>: a list of characters, each
  character standing for one code point below 256. Indices are natural numbers;
  \<open>str.find\<close> returns \<open>-1\<close> when nothing is found, which is \<^term>\<open>None\<close> here.
\<close>

definition isspace :: "char \<Rightarrow> bool" where
  "isspace c \<longleftrightarrow>
     c \<in> set [CHR 0x09, CHR 0x0A, CHR 0x0B, CHR 0x0C, CHR 0x0D, CHR 0x1C, CHR 0x1D,
              CHR 0x1E, CHR 0x1F, CHR 0x20, CHR 0x85, CHR 0xA0]"

definition strip :: "string \<Rightarrow> string" where
  "strip s = rev (dropWhile isspace (rev (dropWhile isspace s)))"

definition endswith :: "string \<Rightarrow> string \<Rightarrow> bool" where
  "endswith s suf \<longleftrightarrow> suffix suf s"

text \<open>\<open>s[a:b]\<close> and \<open>s[a:]\<close> for indices that are not negative.\<close>

definition slice :: "'a list \<Rightarrow> nat \<Rightarrow> nat \<Rightarrow> 'a list" where
  "slice s a b = take (b - a) (drop a s)"

definition slice_from :: "'a list \<Rightarrow> nat \<Rightarrow> 'a list" where
  "slice_from s a = drop a s"

text \<open>
  \<open>find_aux sub rest i\<close> looks for the first position at or after \<open>i\<close> where \<open>sub\<close>
  starts, \<open>rest\<close> being the text from position \<open>i\<close> on.
\<close>

primrec find_aux :: "string \<Rightarrow> string \<Rightarrow> nat \<Rightarrow> nat option" where
  "find_aux sub [] i = (if sub = [] then Some i else None)"
| "find_aux sub (c # cs) i =
     (if prefix sub (c # cs) then Some i else find_aux sub cs (Suc i))"

text \<open>\<open>s.find(sub, start)\<close>\<close>

definition str_find :: "string \<Rightarrow> string \<Rightarrow> nat \<Rightarrow> nat option" where
  "str_find s sub start =
     (if length s < start then None else find_aux sub (drop start s) start)"

text \<open>\<open>s.find(sub, start, end)\<close>: the match must lie inside \<open>s[start:end]\<close>.\<close>

definition str_find_in :: "string \<Rightarrow> string \<Rightarrow> nat \<Rightarrow> nat \<Rightarrow> nat option" where
  "str_find_in s sub start end = str_find (take end s) sub start"

definition contains :: "string \<Rightarrow> string \<Rightarrow> bool" where
  "contains sub s \<longleftrightarrow> str_find s sub 0 \<noteq> None"


section \<open>Message parser (\<open>conversation/parse_assistant_message.py\<close>)\<close>

datatype AssistantMessageContent =
    TextContent string bool
  | ToolUse string "(string \<times> string) list" bool

text \<open>
  \<open>TextContent content partial\<close> and \<open>ToolUse name params partial\<close>, the fields in
  the order of the constructors' arguments. The \<open>params\<close> dictionary keeps insertion
  order, and assigning to a key that is already present keeps the key's place:
  \<^const>\<open>AList.update\<close> on an association list.
\<close>

definition close_tag :: "string \<Rightarrow> string" where
  "close_tag nm = ''</'' @ nm @ ''>''"

text \<open>The statement \<open>if text_content: content_blocks.append(TextContent(...))\<close>.\<close>

definition append_text ::
  "AssistantMessageContent list \<Rightarrow> string \<Rightarrow> bool \<Rightarrow> AssistantMessageContent list" where
  "append_text content_blocks text_content p =
     (if text_content \<noteq> [] then content_blocks @ [TextContent text_content p]
      else content_blocks)"

text \<open>The inner \<open>while param_start < tool_close_pos\<close> loop; every \<open>break\<close> returns \<open>params\<close>.\<close>

function scan_params ::
  "string \<Rightarrow> nat \<Rightarrow> nat \<Rightarrow> (string \<times> string) list \<Rightarrow> (string \<times> string) list" where
  "scan_params s param_start tool_close_pos params =
     (if param_start < tool_close_pos then
        (case str_find_in s ''<'' param_start tool_close_pos of
           None \<Rightarrow> params
         | Some param_open \<Rightarrow>
             (case str_find s ''>'' param_open of
                None \<Rightarrow> params
              | Some param_close \<Rightarrow>
                  (case str_find s (close_tag (slice s (param_open + 1) param_close)) param_close of
                     None \<Rightarrow> params
                   | Some param_end \<Rightarrow>
                       scan_params s
                         (param_end + length (close_tag (slice s (param_open + 1) param_close)))
                         tool_close_pos
                         (AList.update (slice s (param_open + 1) param_close)
                            (strip (slice s (param_close + 1) param_end)) params))))
      else params)"
  by pat_completeness auto

lemma find_aux_ge: "find_aux sub cs i = Some k \<Longrightarrow> i \<le> k"
  by (induction cs arbitrary: i) (auto split: if_splits dest: Suc_leD)

lemma str_find_ge: "str_find s sub start = Some k \<Longrightarrow> start \<le> k"
  by (auto simp: str_find_def split: if_splits dest: find_aux_ge)

lemma str_find_in_ge: "str_find_in s sub start e = Some k \<Longrightarrow> start \<le> k"
  by (auto simp: str_find_in_def dest: str_find_ge)

termination scan_params
proof (relation "measure (\<lambda>(s, param_start, tool_close_pos, params). tool_close_pos - param_start)",
    goal_cases)
  case 1
  show ?case by simp
next
  case (2 s param_start tool_close_pos params param_open param_close param_end)
  from 2(2) have "param_start \<le> param_open" by (rule str_find_in_ge)
  moreover from 2(3) have "param_open \<le> param_close" by (rule str_find_ge)
  moreover from 2(4) have "param_close \<le> param_end" by (rule str_find_ge)
  ultimately show ?case using 2(1) by (simp add: close_tag_def)
qed

text \<open>The outer \<open>while i < n\<close> loop; every \<open>break\<close> returns \<open>content_blocks\<close>.\<close>

function parse_loop ::
  "string \<Rightarrow> nat \<Rightarrow> AssistantMessageContent list \<Rightarrow> AssistantMessageContent list" where
  "parse_loop s i content_blocks =
     (if i < length s then
        (if s ! i = CHR ''<'' then
           (case str_find s ''>'' i of
              None \<Rightarrow> append_text content_blocks (strip (slice_from s i)) True
            | Some tool_end \<Rightarrow>
                (case str_find s (close_tag (slice s (i + 1) tool_end)) tool_end of
                   None \<Rightarrow> append_text content_blocks (strip (slice_from s i)) True
                 | Some tool_close_pos \<Rightarrow>
                     parse_loop s
                       (tool_close_pos + length (close_tag (slice s (i + 1) tool_end)))
                       (if list_all (\<lambda>v. strip v \<noteq> [])
                             (map snd (scan_params s (tool_end + 1) tool_close_pos []))
                        then content_blocks @
                          [ToolUse (slice s (i + 1) tool_end)
                             (scan_params s (tool_end + 1) tool_close_pos []) False]
                        else append_text content_blocks
                          (strip (slice s i
                             (tool_close_pos + length (close_tag (slice s (i + 1) tool_end)))))
                          False)))
         else
           (case str_find s ''<'' i of
              None \<Rightarrow>
                (if strip (slice_from s i) \<noteq> []
                 then content_blocks @
                   [TextContent (strip (slice_from s i))
                      (\<not> endswith (strip (strip (slice_from s i))) ''.'')]
                 else content_blocks)
            | Some text_end \<Rightarrow>
                parse_loop s text_end
                  (append_text content_blocks (strip (slice s i text_end)) False)))
      else content_blocks)"
  by pat_completeness auto

lemma find_aux_char:
  "find_aux [c] cs i = Some k \<Longrightarrow> i \<le> k \<and> k - i < length cs \<and> cs ! (k - i) = c"
proof (induction cs arbitrary: i)
  case Nil
  then show ?case by simp
next
  case (Cons d ds)
  show ?case
  proof (cases "d = c")
    case True
    with Cons.prems show ?thesis by simp
  next
    case False
    with Cons.prems have rec: "find_aux [c] ds (Suc i) = Some k" by simp
    from Cons.IH [OF rec] have "Suc i \<le> k" "k - Suc i < length ds" "ds ! (k - Suc i) = c"
      by simp_all
    moreover from \<open>Suc i \<le> k\<close> have "k - i = Suc (k - Suc i)" by simp
    ultimately show ?thesis by simp
  qed
qed

lemma str_find_char:
  assumes "str_find s [c] start = Some k"
  shows "start \<le> k \<and> k < length s \<and> s ! k = c"
proof -
  from assms have le: "start \<le> length s" and f: "find_aux [c] (drop start s) start = Some k"
    by (auto simp: str_find_def split: if_splits)
  from find_aux_char [OF f] have "start \<le> k" "k - start < length s - start"
    "drop start s ! (k - start) = c" by simp_all
  then show ?thesis using le by simp
qed

termination parse_loop
proof (relation "measure (\<lambda>(s, i, content_blocks). length s - i)", goal_cases)
  case 1
  show ?case by simp
next
  case (2 s i content_blocks tool_end tool_close_pos)
  from 2(3) have "i \<le> tool_end" by (rule str_find_ge)
  moreover from 2(4) have "tool_end \<le> tool_close_pos" by (rule str_find_ge)
  ultimately show ?case using 2(1) by (simp add: close_tag_def)
next
  case (3 s i content_blocks text_end)
  from str_find_char [OF 3(3)] have "i \<le> text_end" "s ! text_end = CHR ''<''" by simp_all
  with 3(2) have "i < text_end" by (cases "i = text_end") auto
  then show ?case using 3(1) by simp
qed

declare scan_params.simps [simp del] parse_loop.simps [simp del]

definition parse_assistant_message :: "string \<Rightarrow> AssistantMessageContent list" where
  "parse_assistant_message assistant_message = parse_loop assistant_message 0 []"

section \<open>Exceptions\<close>

text \<open>
  The exceptions the modelled code raises. An operation that can raise returns a pair:
  \<open>Inl\<close> of the exception or \<open>Inr\<close> of its result, and the state as the operation left
  it, since what was assigned before a \<open>raise\<close> stays assigned.
\<close>

datatype error =
    ValueError string
  | KeyError string
  | AttributeError string
  | FileNotFoundError
  | FileExistsError
  | NotADirectoryError
  | IsADirectoryError
  | OSError
  | PermissionError
  | UnicodeDecodeError
  | RuntimeError


section \<open>Tool registry (\<open>tools/tool_manager.py\<close>, \<open>tools/extended_tools.py\<close>)\<close>

text \<open>
  \<open>BasicTool func description editable\<close> (the function is kept by its name) and
  \<open>ExtendedTool name description editable\<close>.
\<close>

datatype tool =
    BasicTool string string bool
  | ExtendedTool string string bool

primrec tool_description :: "tool \<Rightarrow> string" where
  "tool_description (BasicTool f d e) = d"
| "tool_description (ExtendedTool n d e) = d"

primrec tool_editable :: "tool \<Rightarrow> bool" where
  "tool_editable (BasicTool f d e) = e"
| "tool_editable (ExtendedTool n d e) = e"

primrec set_description :: "string \<Rightarrow> tool \<Rightarrow> tool" where
  "set_description d' (BasicTool f d e) = BasicTool f d' e"
| "set_description d' (ExtendedTool n d e) = ExtendedTool n d' e"

record ToolVersion =
  version :: string
  timestamp :: string
  checksum :: string
  description :: string

text \<open>
  The manager's two tables together with the module-level dictionary \<open>EXTENDED_TOOLS\<close>,
  which \<open>add_tool\<close>, \<open>update_tool\<close> and \<open>remove_tool\<close> read and write.
\<close>

record ToolManager =
  tools :: "string \<rightharpoonup> tool"
  EXTENDED_TOOLS :: "string \<rightharpoonup> tool"
  tool_versions :: "string \<rightharpoonup> ToolVersion list"

text \<open>The dictionary literal of \<open>__init__\<close>, before \<open>**EXTENDED_TOOLS\<close> is merged in.\<close>

definition basic_tools :: "(string \<times> tool) list" where
  "basic_tools =
    [(''read_file'', BasicTool ''read_local_file'' ''Read the contents of a file'' False),
     (''write_to_file'', BasicTool ''create_file'' ''Write content to a file'' False),
     (''replace_in_file'', BasicTool ''apply_diff_edit'' ''Make targeted edits to a file'' False),
     (''ensure_file_in_context'',
        BasicTool ''ensure_file_in_context'' ''Ensure file is in context'' False),
     (''execute_command'',
        BasicTool ''execute_system_command'' ''Execute CLI commands on the system'' False),
     (''search_files'',
        BasicTool ''search_files_regex'' ''Perform regex search across files'' False),
     (''list_files'', BasicTool ''list_directory_contents'' ''List files and directories'' False),
     (''list_code_definition_names'',
        BasicTool ''list_code_definitions'' ''List source code definitions'' False),
     (''ask_followup_question'',
        BasicTool ''ask_user_question'' ''Ask the user a follow-up question'' False),
     (''attempt_completion'', BasicTool ''complete_task'' ''Present the result of a task'' False),
     (''add_tool'', BasicTool ''add_tool'' ''Add a new tool'' False),
     (''update_tool'', BasicTool ''update_tool'' ''Update an existing tool'' False),
     (''remove_tool'', BasicTool ''remove_tool'' ''Remove an existing tool'' False)]"

text \<open>
  \<open>ToolManager()\<close>, given the content of \<open>EXTENDED_TOOLS\<close> at that moment (empty when the
  module has just been imported). In a dictionary literal a later key wins.
\<close>

definition ToolManager_init :: "(string \<rightharpoonup> tool) \<Rightarrow> ToolManager" where
  "ToolManager_init extended =
     \<lparr>tools = map_of basic_tools ++ extended, EXTENDED_TOOLS = extended,
      tool_versions = Map.empty\<rparr>"

definition get_tool :: "string \<Rightarrow> ToolManager \<Rightarrow> error + tool" where
  "get_tool nm s =
     (case tools s nm of
        None \<Rightarrow> Inl (ValueError (''Tool '' @ [CHR 0x27] @ nm @ [CHR 0x27] @ '' not found''))
      | Some t \<Rightarrow> Inr t)"

definition get_tool_versions :: "ToolManager \<Rightarrow> string \<Rightarrow> ToolVersion list" where
  "get_tool_versions s nm = (case tool_versions s nm of None \<Rightarrow> [] | Some vs \<Rightarrow> vs)"

text \<open>\<open>str(n)\<close> for a natural number.\<close>

definition digit_char :: "nat \<Rightarrow> char" where
  "digit_char d = ''0123456789'' ! d"

fun str_nat :: "nat \<Rightarrow> string" where
  "str_nat n = (if n < 10 then [digit_char n] else str_nat (n div 10) @ [digit_char (n mod 10)])"

declare str_nat.simps [simp del]

text \<open>
  \<open>_create_new_version\<close>. The hash \<open>hashlib.md5(code.encode()).hexdigest()\<close> and the clock
  \<open>datetime.now().isoformat()\<close> belong to the Python library: the hash function \<open>md5\<close>
  and the time stamp \<open>now\<close> of the call are parameters.
\<close>

definition create_new_version ::
  "(string \<Rightarrow> string) \<Rightarrow> string \<Rightarrow> string \<Rightarrow> string \<Rightarrow> string \<Rightarrow> ToolManager \<Rightarrow> ToolManager" where
  "create_new_version md5 now nm code descr s =
     s\<lparr>tool_versions := (tool_versions s)(nm \<mapsto>
          (case tool_versions s nm of None \<Rightarrow> [] | Some vs \<Rightarrow> vs) @
          [\<lparr>version = str_nat (length (get_tool_versions s nm) + 1), timestamp = now,
            checksum = md5 code, description = descr\<rparr>])\<rparr>"

text \<open>\<open>_validate_tool_code\<close>\<close>

definition validate_tool_code :: "string \<Rightarrow> error + unit" where
  "validate_tool_code code =
     (if contains ''import os'' code \<or> contains ''import sys'' code
      then Inl (ValueError ''Tool code cannot import restricted modules'')
      else if contains ''subprocess'' code
      then Inl (ValueError ''Tool code cannot use subprocess'')
      else Inr ())"

definition add_tool ::
  "(string \<Rightarrow> string) \<Rightarrow> string \<Rightarrow> string \<Rightarrow> string \<Rightarrow> string \<Rightarrow> ToolManager
     \<Rightarrow> (error + unit) \<times> ToolManager" where
  "add_tool md5 now nm descr code s =
     (if tools s nm \<noteq> None
      then (Inl (ValueError (''Tool '' @ [CHR 0x27] @ nm @ [CHR 0x27] @ '' already exists'')), s)
      else
        (case validate_tool_code code of
           Inl e \<Rightarrow> (Inl e, s)
         | Inr u \<Rightarrow>
             (Inr (),
              create_new_version md5 now nm code descr
                (s\<lparr>tools := (tools s)(nm \<mapsto> ExtendedTool nm descr True),
                   EXTENDED_TOOLS := (EXTENDED_TOOLS s)(nm \<mapsto> ExtendedTool nm descr True)\<rparr>))))"

definition update_tool ::
  "(string \<Rightarrow> string) \<Rightarrow> string \<Rightarrow> string \<Rightarrow> string \<Rightarrow> string \<Rightarrow> ToolManager
     \<Rightarrow> (error + unit) \<times> ToolManager" where
  "update_tool md5 now nm code descr s =
     (case EXTENDED_TOOLS s nm of
        None \<Rightarrow>
          (Inl (ValueError (''Tool '' @ [CHR 0x27] @ nm @ [CHR 0x27] @ '' is not an extended tool'')), s)
      | Some ext \<Rightarrow>
          (case validate_tool_code code of
             Inl e \<Rightarrow> (Inl e, s)
           | Inr u \<Rightarrow>
               (case tools s nm of
                  None \<Rightarrow> (Inl (KeyError nm), s)
                | Some t \<Rightarrow>
                    (Inr (),
                     create_new_version md5 now nm code descr
                       (s\<lparr>tools := (tools s)(nm \<mapsto> set_description descr t),
                          EXTENDED_TOOLS :=
                            (EXTENDED_TOOLS s)(nm \<mapsto> set_description descr ext)\<rparr>)))))"

definition remove_tool :: "string \<Rightarrow> ToolManager \<Rightarrow> (error + unit) \<times> ToolManager" where
  "remove_tool nm s =
     (if EXTENDED_TOOLS s nm = None
      then (Inl (ValueError (''Tool '' @ [CHR 0x27] @ nm @ [CHR 0x27] @ '' is not an extended tool'')), s)
      else if tools s nm = None then (Inl (KeyError nm), s)
      else
        (Inr (),
         s\<lparr>tools := (tools s)(nm := None),
           EXTENDED_TOOLS := (EXTENDED_TOOLS s)(nm := None),
           tool_versions := (tool_versions s)(nm := None)\<rparr>))"

text \<open>
  A history of calls on one manager. A call that raises leaves the three tables as they
  were, so the history goes on from the same state.
\<close>

datatype tool_call =
    AddTool string string string string
  | UpdateTool string string string string
  | RemoveTool string

primrec call_tool ::
  "(string \<Rightarrow> string) \<Rightarrow> tool_call \<Rightarrow> ToolManager \<Rightarrow> (error + unit) \<times> ToolManager" where
  "call_tool md5 (AddTool now nm descr code) s = add_tool md5 now nm descr code s"
| "call_tool md5 (UpdateTool now nm code descr) s = update_tool md5 now nm code descr s"
| "call_tool md5 (RemoveTool nm) s = remove_tool nm s"

primrec run_calls :: "(string \<Rightarrow> string) \<Rightarrow> tool_call list \<Rightarrow> ToolManager \<Rightarrow> ToolManager" where
  "run_calls md5 [] s = s"
| "run_calls md5 (c # cs) s = run_calls md5 cs (snd (call_tool md5 c s))"

section \<open>Terminal processes (\<open>file_ops/terminal_manager.py\<close>)\<close>

subsection \<open>Text helpers\<close>

text \<open>
  \<open>str.lower\<close> on code points below 256: the ASCII capitals and the Latin-1 capitals
  (all of \<open>0xC0\<close> to \<open>0xDE\<close> but the multiplication sign) move up by 32.
\<close>

definition lower_char :: "char \<Rightarrow> char" where
  "lower_char c =
     (if (65 \<le> (of_char c :: nat) \<and> (of_char c :: nat) \<le> 90) \<or>
         (192 \<le> (of_char c :: nat) \<and> (of_char c :: nat) \<le> 222 \<and> (of_char c :: nat) \<noteq> 215)
      then char_of ((of_char c :: nat) + 32) else c)"

definition lower :: "string \<Rightarrow> string" where
  "lower s = map lower_char s"

definition in_range :: "char \<Rightarrow> nat \<Rightarrow> nat \<Rightarrow> bool" where
  "in_range c lo hi \<longleftrightarrow> lo \<le> of_char c \<and> (of_char c :: nat) \<le> hi"

text \<open>
  \<open>re.sub(pattern, "", text)\<close> for a pattern that starts with the escape character:
  \<open>m\<close> says how many characters after an escape character the pattern matches there,
  if it matches; matches are removed from left to right.
\<close>

fun re_sub_esc :: "(string \<Rightarrow> nat option) \<Rightarrow> string \<Rightarrow> string" where
  "re_sub_esc m [] = []"
| "re_sub_esc m (c # cs) =
     (if c = CHR 0x1B then
        (case m cs of
           Some n \<Rightarrow> re_sub_esc m (drop n cs)
         | None \<Rightarrow> c # re_sub_esc m cs)
      else c # re_sub_esc m cs)"

text \<open>
  The rest of \<open>\x1B(?:[@-Z\\-_]|\[[0-?]*[ -/]*[@-~])\<close> after the escape character. The
  three character classes of the second alternative are disjoint, so the greedy match
  is the only one.
\<close>

definition ansi_match :: "string \<Rightarrow> nat option" where
  "ansi_match cs =
     (case cs of
        [] \<Rightarrow> None
      | d # ds \<Rightarrow>
          if in_range d 0x40 0x5A \<or> in_range d 0x5C 0x5F then Some 1
          else if d = CHR 0x5B then
            (case dropWhile (\<lambda>c. in_range c 0x20 0x2F)
                    (dropWhile (\<lambda>c. in_range c 0x30 0x3F) ds) of
               [] \<Rightarrow> None
             | f # rest \<Rightarrow>
                 if in_range f 0x40 0x7E then Some (length cs - length rest) else None)
          else None)"

text \<open>\<open>_strip_ansi\<close>\<close>

definition strip_ansi :: "string \<Rightarrow> string" where
  "strip_ansi text = re_sub_esc ansi_match text"

text \<open>The rest of \<open>\x1b\]633;[^\x07]*\x07\<close> after the escape character.\<close>

definition vscode_match :: "string \<Rightarrow> nat option" where
  "vscode_match cs =
     (if prefix '']633;'' cs then
        (case dropWhile (\<lambda>c. c \<noteq> CHR 0x07) (drop 5 cs) of
           [] \<Rightarrow> None
         | b # rest \<Rightarrow> Some (length cs - length rest))
      else None)"

text \<open>\<open>_handle_vscode_sequences\<close>\<close>

definition handle_vscode_sequences :: "string \<Rightarrow> string" where
  "handle_vscode_sequences d = re_sub_esc vscode_match d"

text \<open>\<open>line.rstrip("\r")\<close>\<close>

definition rstrip_cr :: "string \<Rightarrow> string" where
  "rstrip_cr s = rev (dropWhile (\<lambda>c. c = CHR 0x0D) (rev s))"

subsection \<open>One terminal process\<close>

datatype TerminalEventType = LINE | CONTINUE | COMPLETED | ERROR | NO_SHELL_INTEGRATION

text \<open>\<open>TerminalEvent type data\<close>\<close>

datatype TerminalEvent = TerminalEvent TerminalEventType "string option"

text \<open>
  The \<open>subprocess.Popen\<close> object, as far as the class uses it: the lines the process
  writes to its standard output before the stream ends, and whether \<open>terminate()\<close> was
  called on it.
\<close>

record Popen =
  stdout :: "string list"
  terminated :: bool

text \<open>
  The handle that \<open>loop.call_later(timeout, callback)\<close> returns: scheduled with its
  delay in seconds, or expired once the callback has run. A cancelled handle is never
  kept: \<open>_set_hot_timer\<close> replaces the one it cancels.
\<close>

datatype TimerHandle = Scheduled real | Expired

text \<open>
  The attributes of \<open>TerminalProcess\<close>, without their leading underscore (\<open>popen\<close> is
  \<open>_process\<close>). \<open>__init__\<close> assigns no \<open>_buffer\<close>: \<open>buffer\<close> is \<^term>\<open>None\<close> while the
  object has no such attribute. \<open>emitted\<close> records the events passed to \<open>_emit\<close>, in
  order; the handlers registered with \<open>on\<close> are observers and are not modelled.
\<close>

record TerminalProcess =
  popen :: "Popen option"
  output_buffer :: string
  last_retrieved_index :: int
  is_hot :: bool
  hot_timer :: "TimerHandle option"
  buffer :: "string option"
  emitted :: "TerminalEvent list"

definition PROCESS_HOT_TIMEOUT_NORMAL :: real where
  "PROCESS_HOT_TIMEOUT_NORMAL = 2"

definition PROCESS_HOT_TIMEOUT_COMPILING :: real where
  "PROCESS_HOT_TIMEOUT_COMPILING = 15"

text \<open>\<open>TerminalProcess()\<close>\<close>

definition TerminalProcess_init :: TerminalProcess where
  "TerminalProcess_init =
     \<lparr>popen = None, output_buffer = [], last_retrieved_index = 0, is_hot = False,
      hot_timer = None, buffer = None, emitted = []\<rparr>"

text \<open>\<open>_emit\<close>\<close>

definition emit :: "TerminalEvent \<Rightarrow> TerminalProcess \<Rightarrow> TerminalProcess" where
  "emit event s = s\<lparr>emitted := emitted s @ [event]\<rparr>"

text \<open>\<open>_set_hot_timer\<close>: the old handle, if any, is cancelled and a new one is scheduled.\<close>

definition set_hot_timer :: "real \<Rightarrow> TerminalProcess \<Rightarrow> TerminalProcess" where
  "set_hot_timer timeout s = s\<lparr>hot_timer := Some (Scheduled timeout)\<rparr>"

text \<open>
  The event loop running the scheduled callback \<open>setattr(self, "_is_hot", False)\<close>; a
  handle that is not scheduled has nothing to run.
\<close>

definition timer_expires :: "TerminalProcess \<Rightarrow> TerminalProcess" where
  "timer_expires s =
     (case hot_timer s of
        Some (Scheduled timeout) \<Rightarrow> s\<lparr>is_hot := False, hot_timer := Some Expired\<rparr>
      | _ \<Rightarrow> s)"

text \<open>
  \<open>run\<close>, up to the start of the reader thread; \<open>p\<close> is the process that \<open>Popen\<close> has
  spawned.
\<close>

definition run :: "Popen \<Rightarrow> TerminalProcess \<Rightarrow> TerminalProcess" where
  "run p s = set_hot_timer PROCESS_HOT_TIMEOUT_NORMAL (s\<lparr>popen := Some p, is_hot := True\<rparr>)"

definition compiling_markers :: "string list" where
  "compiling_markers =
     [''compiling'', ''building'', ''bundling'', ''transpiling'', ''generating'', ''starting'']"

definition marker_nullifiers :: "string list" where
  "marker_nullifiers =
     [''compiled'', ''success'', ''finish'', ''complete'', ''succeed'', ''done'', ''end'',
      ''stop'', ''exit'', ''terminate'', ''error'', ''fail'']"

definition is_compiling :: "string \<Rightarrow> bool" where
  "is_compiling d \<longleftrightarrow>
     list_ex (\<lambda>marker. contains marker (lower d)) compiling_markers \<and>
     \<not> list_ex (\<lambda>nullifier. contains nullifier (lower d)) marker_nullifiers"

text \<open>\<open>_update_hot_state\<close>\<close>

definition update_hot_state :: "string \<Rightarrow> TerminalProcess \<Rightarrow> TerminalProcess" where
  "update_hot_state d s =
     set_hot_timer
       (if is_compiling d then PROCESS_HOT_TIMEOUT_COMPILING else PROCESS_HOT_TIMEOUT_NORMAL) s"

text \<open>The \<open>while\<close> loop of \<open>_emit_if_eol\<close>, on the content \<open>b\<close> of \<open>self._buffer\<close>.\<close>

function emit_lines :: "string \<Rightarrow> TerminalProcess \<Rightarrow> TerminalProcess" where
  "emit_lines b s =
     (case str_find b [CHR 0x0A] 0 of
        None \<Rightarrow> s\<lparr>buffer := Some b\<rparr>
      | Some line_end_index \<Rightarrow>
          emit_lines (slice_from b (line_end_index + 1))
            ((emit (TerminalEvent LINE (Some (rstrip_cr (slice b 0 line_end_index)))) s)
               \<lparr>last_retrieved_index :=
                  int (length (output_buffer s)) -
                  int (length (slice_from b (line_end_index + 1)))\<rparr>))"
  by pat_completeness auto
termination
proof (relation "measure (\<lambda>(b, s). length b)", goal_cases)
  case 1
  show ?case by simp
next
  case (2 b s line_end_index)
  from str_find_char [OF 2] have "line_end_index < length b" by simp
  then show ?case by (simp add: slice_from_def)
qed

declare emit_lines.simps [simp del]

text \<open>
  \<open>_emit_if_eol\<close>. Its first statement \<open>self._buffer += chunk\<close> reads the attribute, and
  raises \<open>AttributeError\<close> when the object has none.
\<close>

definition emit_if_eol :: "string \<Rightarrow> TerminalProcess \<Rightarrow> (error + unit) \<times> TerminalProcess" where
  "emit_if_eol chunk s =
     (case buffer s of
        None \<Rightarrow> (Inl (AttributeError ''_buffer''), s)
      | Some b \<Rightarrow> (Inr (), emit_lines (b @ chunk) s))"

text \<open>\<open>_process_output\<close>\<close>

definition process_output :: "string \<Rightarrow> TerminalProcess \<Rightarrow> (error + unit) \<times> TerminalProcess" where
  "process_output d s =
     (case emit_if_eol (handle_vscode_sequences (strip_ansi d))
             (s\<lparr>output_buffer := output_buffer s @ handle_vscode_sequences (strip_ansi d)\<rparr>) of
        (Inl e, s') \<Rightarrow> (Inl e, s')
      | (Inr u, s') \<Rightarrow> (Inr (), update_hot_state (handle_vscode_sequences (strip_ansi d)) s'))"

text \<open>The \<open>for data in self._process.stdout\<close> loop of \<open>_read_output\<close>.\<close>

fun read_lines :: "string list \<Rightarrow> TerminalProcess \<Rightarrow> (error + unit) \<times> TerminalProcess" where
  "read_lines [] s = (Inr (), s)"
| "read_lines (d # ds) s =
     (case process_output d s of
        (Inl e, s') \<Rightarrow> (Inl e, s')
      | (Inr u, s') \<Rightarrow> read_lines ds s')"

text \<open>
  \<open>_read_output\<close>, the body of the reader thread, for a process whose output stream
  ends: an exception in the loop ends the thread there, and the statements after the
  loop run only when the loop has reached the end of the stream.
\<close>

definition read_output :: "TerminalProcess \<Rightarrow> (error + unit) \<times> TerminalProcess" where
  "read_output s =
     (case popen s of
        None \<Rightarrow> (Inr (), s)
      | Some p \<Rightarrow>
          (case read_lines (stdout p) s of
             (Inl e, s') \<Rightarrow> (Inl e, s')
           | (Inr u, s') \<Rightarrow>
               (Inr (),
                (emit (TerminalEvent CONTINUE None)
                   (emit (TerminalEvent COMPLETED None) s'))\<lparr>is_hot := False\<rparr>)))"

subsection \<open>The terminal manager\<close>

text \<open>
  \<open>TerminalInfo\<close>; \<open>process\<close> is a reference to a \<open>TerminalProcess\<close> object, or \<open>None\<close>.
\<close>

record TerminalInfo =
  terminal_id :: nat
  busy :: bool
  last_command :: string
  process :: "nat option"

text \<open>
  The manager's attributes, without their leading underscore, and the \<open>TerminalProcess\<close>
  objects by reference (\<open>heap\<close>): the same object can be reached from a \<open>TerminalInfo\<close>
  and from \<open>processes\<close>. The two dictionaries keep insertion order.
\<close>

record TerminalManager =
  processes :: "(nat \<times> nat) list"
  terminals :: "(nat \<times> TerminalInfo) list"
  next_id :: nat
  heap :: "nat \<Rightarrow> TerminalProcess"



text \<open>\<open>process._process.terminate()\<close> on the object behind a reference.\<close>

definition terminate_process :: "nat \<Rightarrow> TerminalManager \<Rightarrow> TerminalManager" where
  "terminate_process r m =
     (case popen (heap m r) of
        None \<Rightarrow> m
      | Some p \<Rightarrow> m\<lparr>heap := (heap m)(r := (heap m r)\<lparr>popen := Some (p\<lparr>terminated := True\<rparr>)\<rparr>)\<rparr>)"

definition remove_terminal :: "nat \<Rightarrow> TerminalManager \<Rightarrow> TerminalManager" where
  "remove_terminal tid m =
     (case map_of (processes m) tid of
        None \<Rightarrow> m\<lparr>terminals := AList.delete tid (terminals m)\<rparr>
      | Some r \<Rightarrow>
          (terminate_process r (m\<lparr>terminals := AList.delete tid (terminals m)\<rparr>))
            \<lparr>processes := AList.delete tid (processes m)\<rparr>)"







text \<open>
  \<open>run_command\<close>: the new \<open>TerminalProcess\<close> object gets the reference \<open>r\<close>, and \<open>p\<close> is the
  process that \<open>Popen\<close> has spawned.
\<close>

definition run_command :: "nat \<Rightarrow> Popen \<Rightarrow> TerminalManager \<Rightarrow> nat \<times> TerminalManager" where
  "run_command r p m =
     (r, m\<lparr>next_id := next_id m + 1,
           processes := AList.update (next_id m) r (processes m),
           heap := (heap m)(r := run p TerminalProcess_init)\<rparr>)"

definition is_process_hot :: "nat \<Rightarrow> TerminalManager \<Rightarrow> bool" where
  "is_process_hot tid m =
     (case map_of (processes m) tid of None \<Rightarrow> False | Some r \<Rightarrow> is_hot (heap m r))"

section \<open>Diff view provider (\<open>file_ops/diff_view_provider.py\<close>)\<close>

subsection \<open>The file system\<close>

text \<open>
  A path is the list of its components below the root, so the root is \<open>[]\<close>, the parent
  of a path is \<^term>\<open>butlast\<close> of it, and \<open>cwd / rel_path\<close> is concatenation (\<open>rel_path\<close>
  is relative, without \<open>..\<close> components or symbolic links). The file system is that of
  a POSIX host whose text encoding is UTF-8: it maps the paths that exist to a
  directory, to a file whose bytes are the UTF-8 encoding of a text (\<open>File\<close>, with the
  text exactly as it was written: text-mode writing leaves line ends alone there), or
  to a file whose bytes are not UTF-8 (\<open>Binary\<close>). Every access is permitted. Entries
  are kept in the order in which they were created.
\<close>

type_synonym path = "string list"

datatype node = Dir | File string | Binary

type_synonym filesystem = "(path \<times> node) list"

text \<open>\<open>Path.exists\<close>\<close>

definition path_exists :: "filesystem \<Rightarrow> path \<Rightarrow> bool" where
  "path_exists fs p \<longleftrightarrow> map_of fs p \<noteq> None"

text \<open>\<open>Path.parents\<close>: the parent, its parent, and so on up to the root.\<close>

fun parents :: "path \<Rightarrow> path list" where
  "parents p = (if p = [] then [] else butlast p # parents (butlast p))"

declare parents.simps [simp del]

text \<open>
  The length of a component in bytes: a code point from 128 on takes two bytes in
  UTF-8. A component of more than 255 bytes is refused by the file system.
\<close>

definition name_bytes :: "string \<Rightarrow> nat" where
  "name_bytes n = length n + length (filter (\<lambda>c. 128 \<le> (of_char c :: nat)) n)"

text \<open>A path with a NUL character is refused by Python before the system call.\<close>

definition has_nul :: "path \<Rightarrow> bool" where
  "has_nul p \<longleftrightarrow> list_ex (\<lambda>n. CHR 0x00 \<in> set n) p"

text \<open>
  The walk of the system call along the components that are left, from the directory
  \<open>dir\<close>: each step needs \<open>dir\<close> to be a directory and the next component to be short
  enough; the last component is not looked up.
\<close>

fun walk :: "path \<Rightarrow> path \<Rightarrow> filesystem \<Rightarrow> error option" where
  "walk dir [] fs = None"
| "walk dir (n # rest) fs =
     (case map_of fs dir of
        None \<Rightarrow> Some FileNotFoundError
      | Some Dir \<Rightarrow>
          if 255 < name_bytes n then Some OSError
          else if rest = [] then None
          else walk (dir @ [n]) rest fs
      | Some (File c) \<Rightarrow> Some NotADirectoryError
      | Some Binary \<Rightarrow> Some NotADirectoryError)"


text \<open>\<open>Path.mkdir()\<close>, without \<open>parents=True\<close> and without \<open>exist_ok=True\<close>.\<close>

definition mkdir :: "path \<Rightarrow> filesystem \<Rightarrow> error + filesystem" where
  "mkdir p fs =
     (if has_nul p then Inl (ValueError ''embedded null byte'')
      else
        (case walk [] p fs of
           Some e \<Rightarrow> Inl e
         | None \<Rightarrow>
             if p = [] \<or> path_exists fs p then Inl FileExistsError
             else Inr (AList.update p Dir fs)))"

text \<open>\<open>with open(p, "w") as f: f.write(content)\<close>\<close>

definition write_file :: "path \<Rightarrow> string \<Rightarrow> filesystem \<Rightarrow> error + filesystem" where
  "write_file p text fs =
     (if has_nul p then Inl (ValueError ''embedded null byte'')
      else
        (case walk [] p fs of
           Some e \<Rightarrow> Inl e
         | None \<Rightarrow>
             if map_of fs p = Some Dir then Inl IsADirectoryError
             else Inr (AList.update p (File text) fs)))"




text \<open>
  Reading in text mode with universal newlines: \<open>CR LF\<close> and a lone \<open>CR\<close> are read as
  \<open>LF\<close>.
\<close>

fun universal_newlines :: "string \<Rightarrow> string" where
  "universal_newlines [] = []"
| "universal_newlines [c] = [if c = CHR 0x0D then CHR 0x0A else c]"
| "universal_newlines (c # d # cs) =
     (if c = CHR 0x0D \<and> d = CHR 0x0A then CHR 0x0A # universal_newlines cs
      else if c = CHR 0x0D then CHR 0x0A # universal_newlines (d # cs)
      else c # universal_newlines (d # cs))"

text \<open>
  \<open>read_local_file\<close> of \<open>file_ops/operations.py\<close>. \<open>path.exists()\<close> is false for a
  missing path and for a path with a NUL character: \<open>FileNotFoundError\<close>. \<open>os.access\<close>
  fails when the path cannot be walked: \<open>PermissionError\<close>. The \<open>OSError\<close> of opening a
  directory is raised again as \<open>RuntimeError\<close>; bytes that are not UTF-8 raise
  \<open>UnicodeDecodeError\<close>, which no handler catches; otherwise the text is returned as
  \<open>open(path, 'r', encoding='utf-8')\<close> reads it.
\<close>

definition read_local_file :: "path \<Rightarrow> filesystem \<Rightarrow> error + string" where
  "read_local_file p fs =
     (if has_nul p \<or> \<not> path_exists fs p then Inl FileNotFoundError
      else if walk [] p fs \<noteq> None then Inl PermissionError
      else
        (case map_of fs p of
           None \<Rightarrow> Inl FileNotFoundError
         | Some Dir \<Rightarrow> Inl RuntimeError
         | Some Binary \<Rightarrow> Inl UnicodeDecodeError
         | Some (File c) \<Rightarrow> Inr (universal_newlines c)))"

subsection \<open>Decoration controllers (\<open>conversation/decoration_controller.py\<close>)\<close>

record TextRange =
  start_line :: int
  end_line :: int

record DecorationController =
  decoration_type :: string
  ranges :: "TextRange list"

definition DecorationController_init :: "string \<Rightarrow> DecorationController" where
  "DecorationController_init t = \<lparr>decoration_type = t, ranges = []\<rparr>"

definition clear :: "DecorationController \<Rightarrow> DecorationController" where
  "clear c = c\<lparr>ranges := []\<rparr>"

definition update_overlay_after_line ::
  "int \<Rightarrow> int \<Rightarrow> DecorationController \<Rightarrow> DecorationController" where
  "update_overlay_after_line line total_lines c =
     c\<lparr>ranges :=
         filter (\<lambda>r. end_line r < line) (ranges c) @
         (if line < total_lines - 1
          then [\<lparr>start_line = line + 1, end_line = total_lines - 1\<rparr>] else [])\<rparr>"

definition set_active_line :: "int \<Rightarrow> DecorationController \<Rightarrow> DecorationController" where
  "set_active_line line c = c\<lparr>ranges := [\<lparr>start_line = line, end_line = line\<rparr>]\<rparr>"

subsection \<open>The provider\<close>

text \<open>\<open>s.split("\n")\<close>: there is always at least one piece.\<close>

fun split_lines :: "string \<Rightarrow> string list" where
  "split_lines [] = [[]]"
| "split_lines (c # cs) =
     (if c = CHR 0x0A then [] # split_lines cs
      else (case split_lines cs of
              [] \<Rightarrow> [[c]]
            | l # ls \<Rightarrow> (c # l) # ls))"

text \<open>The dictionary that \<open>_open_diff_view\<close> returns, \<open>{"document": {"uri", "line_count"}}\<close>.\<close>

record diff_editor =
  uri :: path
  line_count :: nat


record DiffViewProvider =
  cwd :: path
  edit_type :: "string option"
  is_editing :: bool
  original_content :: "string option"
  created_dirs :: "path list"
  document_was_open :: bool
  rel_path :: "path option"
  new_content :: "string option"
  active_diff_editor :: "diff_editor option"
  faded_overlay_controller :: "DecorationController option"
  active_line_controller :: "DecorationController option"
  streamed_lines :: "string list"
  pre_diagnostics :: "(string \<times> string list) list"

text \<open>\<open>DiffViewProvider(cwd)\<close>\<close>

definition DiffViewProvider_init :: "path \<Rightarrow> DiffViewProvider" where
  "DiffViewProvider_init dir =
     \<lparr>cwd = dir, edit_type = None, is_editing = False, original_content = None,
      created_dirs = [], document_was_open = False, rel_path = None, new_content = None,
      active_diff_editor = None, faded_overlay_controller = None,
      active_line_controller = None, streamed_lines = [], pre_diagnostics = []\<rparr>"

text \<open>The loop of \<open>_create_directories_for_file\<close>.\<close>

fun create_dirs_loop ::
  "path list \<Rightarrow> path list \<Rightarrow> filesystem \<Rightarrow> (error + path list) \<times> filesystem" where
  "create_dirs_loop [] created fs = (Inr created, fs)"
| "create_dirs_loop (parent # rest) created fs =
     (if \<not> path_exists fs parent then
        (case mkdir parent fs of
           Inl e \<Rightarrow> (Inl e, fs)
         | Inr fs' \<Rightarrow> create_dirs_loop rest (created @ [parent]) fs')
      else create_dirs_loop rest created fs)"

definition create_directories_for_file ::
  "path \<Rightarrow> filesystem \<Rightarrow> (error + path list) \<times> filesystem" where
  "create_directories_for_file file_path fs = create_dirs_loop (parents file_path) [] fs"

text \<open>\<open>_open_diff_view\<close>, called when \<open>rel_path\<close> is \<open>rel\<close>.\<close>

definition open_diff_view :: "path \<Rightarrow> DiffViewProvider \<Rightarrow> diff_editor" where
  "open_diff_view rel s =
     \<lparr>uri = cwd s @ rel,
      line_count =
        (case original_content s of
           None \<Rightarrow> 0
         | Some c \<Rightarrow> if c = [] then 0 else length (split_lines c))\<rparr>"

text \<open>The end of \<open>open\<close>, from \<open># Open diff view\<close> on.\<close>

definition open_view :: "path \<Rightarrow> DiffViewProvider \<Rightarrow> DiffViewProvider" where
  "open_view rel s =
     s\<lparr>active_diff_editor := Some (open_diff_view rel s),
       faded_overlay_controller := Some (DecorationController_init ''fadedOverlay''),
       active_line_controller := Some (DecorationController_init ''activeLine''),
       streamed_lines := []\<rparr>"

text \<open>
  \<open>open\<close>. Whether the file exists is read off \<open>edit_type\<close>, which the caller sets; the
  statements run in the order of the source, and an exception leaves the provider and
  the file system as they are at that statement.
\<close>

definition open_diff ::
  "path \<Rightarrow> DiffViewProvider \<times> filesystem \<Rightarrow> (error + unit) \<times> DiffViewProvider \<times> filesystem" where
  "open_diff rel = (\<lambda>(s, fs).
     (case (if edit_type s = Some ''modify'' then read_local_file (cwd s @ rel) fs else Inr []) of
        Inl e \<Rightarrow> (Inl e, s\<lparr>rel_path := Some rel, is_editing := True\<rparr>, fs)
      | Inr original \<Rightarrow>
          (case create_directories_for_file (cwd s @ rel) fs of
             (Inl e, fs') \<Rightarrow>
               (Inl e,
                s\<lparr>rel_path := Some rel, is_editing := True, original_content := Some original\<rparr>,
                fs')
           | (Inr created, fs') \<Rightarrow>
               (case (if edit_type s \<noteq> Some ''modify'' then write_file (cwd s @ rel) [] fs'
                      else Inr fs') of
                  Inl e \<Rightarrow>
                    (Inl e,
                     s\<lparr>rel_path := Some rel, is_editing := True,
                       original_content := Some original, created_dirs := created\<rparr>,
                     fs')
                | Inr fs'' \<Rightarrow>
                    (Inr (),
                     open_view rel
                       (s\<lparr>rel_path := Some rel, is_editing := True,
                          original_content := Some original, created_dirs := created\<rparr>),
                     fs'')))))"

text \<open>
  The \<open>for i, line in enumerate(diff_lines)\<close> loop of \<open>update\<close>: its effect on the active
  line controller and on the faded overlay controller (\<open>_update_diff_content\<close> and
  \<open>_scroll_to_line\<close> do nothing).
\<close>

definition show_lines ::
  "nat \<Rightarrow> nat \<Rightarrow> nat \<Rightarrow> DecorationController \<times> DecorationController
     \<Rightarrow> DecorationController \<times> DecorationController" where
  "show_lines streamed n total_lines =
     fold (\<lambda>i (active, faded).
             (set_active_line (int (streamed + i)) active,
              update_overlay_after_line (int (streamed + i)) (int total_lines) faded))
          [0..<n]"

text \<open>\<open>update\<close>; \<open>accumulated_lines.pop()\<close> removes the last piece.\<close>

definition update :: "string \<Rightarrow> bool \<Rightarrow> DiffViewProvider \<Rightarrow> (error + unit) \<times> DiffViewProvider" where
  "update accumulated_content is_final s =
     (case (rel_path s, active_line_controller s, faded_overlay_controller s) of
        (Some rel, Some active, Some faded) \<Rightarrow>
          (let pieces = split_lines accumulated_content;
               accumulated_lines = (if \<not> is_final then butlast pieces else pieces);
               diff_lines = drop (length (streamed_lines s)) accumulated_lines;
               (active', faded') =
                 show_lines (length (streamed_lines s)) (length diff_lines)
                   (length accumulated_lines) (active, faded)
           in (Inr (),
               s\<lparr>new_content := Some accumulated_content,
                 streamed_lines := accumulated_lines,
                 active_line_controller := Some (if is_final then clear active' else active'),
                 faded_overlay_controller := Some (if is_final then clear faded' else faded')\<rparr>))
      | _ \<Rightarrow> (Inl (ValueError ''Required values not set''), s))"






section \<open>Invariants and example states used in the properties below\<close>

text \<open>Every basic-tool name is in the tool table and not in \<open>EXTENDED_TOOLS\<close>.\<close>

definition basic_names_kept :: "ToolManager \<Rightarrow> bool" where
  "basic_names_kept s \<longleftrightarrow>
     (\<forall>nm \<in> fst ` set basic_tools. tools s nm \<noteq> None \<and> EXTENDED_TOOLS s nm = None)"

text \<open>A fresh manager to which one tool, \<open>greet\<close>, has been added.\<close>

definition greet_added :: ToolManager where
  "greet_added =
     snd (add_tool (\<lambda>code. code) ''2024-01-01T00:00:00'' ''greet'' ''Say hello'' ''print(1)''
            (ToolManager_init Map.empty))"

text \<open>A process that writes nothing and exits, and one that writes a single line.\<close>

definition quiet_process :: Popen where
  "quiet_process = \<lparr>stdout = [], terminated = False\<rparr>"

definition compiling_process :: Popen where
  "compiling_process = \<lparr>stdout = [''Compiling main.c''], terminated = False\<rparr>"

text \<open>The timeout that \<open>_update_hot_state\<close> chooses for a chunk.\<close>

definition hot_timeout :: "string \<Rightarrow> real" where
  "hot_timeout d =
     (if is_compiling d then PROCESS_HOT_TIMEOUT_COMPILING else PROCESS_HOT_TIMEOUT_NORMAL)"

text \<open>
  A session run on the process that writes one line, whose \<open>_buffer\<close> attribute has been
  assigned the empty string from outside the class.
\<close>

definition buffered_session :: TerminalProcess where
  "buffered_session = (run compiling_process TerminalProcess_init)\<lparr>buffer := Some []\<rparr>"




text \<open>A workspace \<open>w\<close> below the root that holds one file \<open>f\<close> with the content \<open>abc\<close>.\<close>

definition workspace_fs :: filesystem where
  "workspace_fs = [([], Dir), ([''w''], Dir), ([''w'', ''f''], File ''abc'')]"

text \<open>A provider for the workspace whose caller has announced a modification.\<close>

definition modify_session :: DiffViewProvider where
  "modify_session = (DiffViewProvider_init [''w''])\<lparr>edit_type := Some ''modify''\<rparr>"





text \<open>The workspace with a file \<open>crlf\<close> whose two lines end in \<open>CR LF\<close>.\<close>

definition crlf_fs :: filesystem where
  "crlf_fs = workspace_fs @ [([''w'', ''crlf''], File [CHR ''a'', CHR 0x0D, CHR 0x0A, CHR ''b''])]"

section \<open>Properties of the message parser\<close>

subsection \<open>Facts about \<open>strip\<close> and \<open>find\<close>\<close>

lemma dropWhile_rev_dropWhile:
  "dropWhile P (rev (dropWhile P (rev (dropWhile P s)))) = rev (dropWhile P (rev (dropWhile P s)))"
proof (cases "dropWhile P s")
  case Nil
  show ?thesis unfolding Nil by simp
next
  case (Cons x xs)
  then have nx: "\<not> P x" by (metis hd_dropWhile list.sel(1) list.distinct(1))
  have "\<exists>ys. dropWhile P (rev xs @ [x]) = ys @ [x]"
    using nx by (cases "\<forall>y\<in>set (rev xs). P y") (auto simp: dropWhile_append)
  then obtain ys where ys: "dropWhile P (rev xs @ [x]) = ys @ [x]" ..
  show ?thesis using nx by (simp add: Cons ys)
qed

lemma strip_strip: "strip (strip s) = strip s"
  by (simp add: strip_def dropWhile_rev_dropWhile)

lemma str_find_char_None:
  assumes "c \<notin> set s"
  shows "str_find s [c] start = None"
proof (cases "str_find s [c] start")
  case None
  then show ?thesis .
next
  case (Some k)
  from str_find_char [OF Some] have "k < length s" "s ! k = c" by simp_all
  with assms show ?thesis by (metis nth_mem)
qed

subsection \<open>Buffers without a tag\<close>

text \<open>
  C8 (as amended). For every input buffer containing no \<open><\<close> character, the parser
  returns the empty sequence when the trimmed input is empty, and otherwise a single
  text block whose text is the trimmed input and whose partial flag is true exactly
  when the trimmed input does not end with a period.
\<close>

theorem parse_no_tag:
  assumes "CHR ''<'' \<notin> set s"
  shows "parse_assistant_message s =
    (if strip s = [] then [] else [TextContent (strip s) (\<not> endswith (strip s) ''.'')])"
proof (cases "s = []")
  case True
  then show ?thesis
    by (simp add: parse_assistant_message_def parse_loop.simps strip_def)
next
  case False
  then have "0 < length s" by simp
  moreover from assms False have "s ! 0 \<noteq> CHR ''<''" by (metis length_greater_0_conv nth_mem)
  moreover from assms have "str_find s ''<'' 0 = None" by (rule str_find_char_None)
  ultimately show ?thesis
    by (simp add: parse_assistant_message_def parse_loop.simps [of s 0] slice_from_def strip_strip)
qed

text \<open>C8, witness: a buffer with trailing blanks that ends its sentence.\<close>

theorem parse_no_tag_witness:
  "CHR ''<'' \<notin> set ''Done.  '' \<and> parse_assistant_message ''Done.  '' = [TextContent ''Done.'' False]"
  using parse_no_tag [of "''Done.  ''"]
  by (simp add: strip_def isspace_def endswith_def suffix_to_prefix)

text \<open>
  C8, counterexample to the claim as stated: the empty buffer contains no \<open><\<close>, and
  the parser returns no block at all for it, not a single text block.
\<close>

theorem parse_empty_counterexample:
  "CHR ''<'' \<notin> set '''' \<and> parse_assistant_message '''' = [] \<and>
   parse_assistant_message '''' \<noteq> [TextContent (strip '''') (\<not> endswith (strip '''') ''.'')]"
  by (simp add: parse_assistant_message_def parse_loop.simps)

subsection \<open>A tag whose inner parameter lacks its closing tag\<close>




section \<open>Properties of the tool registry\<close>

lemma basic_names_kept_init: "basic_names_kept (ToolManager_init Map.empty)"
  by (auto simp: basic_names_kept_def ToolManager_init_def weak_map_of_SomeI)

lemma basic_names_kept_call:
  assumes "basic_names_kept s"
  shows "basic_names_kept (snd (call_tool md5 c s))"
proof (cases c)
  case (AddTool now nm descr code)
  with assms show ?thesis
    by (auto simp: basic_names_kept_def add_tool_def create_new_version_def split: sum.splits)
next
  case (UpdateTool now nm code descr)
  with assms show ?thesis
    by (auto simp: basic_names_kept_def update_tool_def create_new_version_def
        split: sum.splits option.splits)
next
  case (RemoveTool nm)
  with assms show ?thesis
    by (auto simp: basic_names_kept_def remove_tool_def)
qed

lemma basic_names_kept_run:
  "basic_names_kept s \<Longrightarrow> basic_names_kept (run_calls md5 cs s)"
  by (induction cs arbitrary: s) (simp_all add: basic_names_kept_call)

text \<open>
  C5 (as amended). For every basic-tool name (seeded at registry construction) and
  every registry state reached from a fresh manager by any history of calls:
  \<open>update\<close> and \<open>remove\<close> invoked with that name fail with the "is not an extended tool"
  error, \<open>add\<close> invoked with that name fails with the "already exists" error, and
  each of the three leaves the registry (tool table, extended-tool table and version
  logs) unchanged.
\<close>

theorem basic_tool_immutable:
  assumes "nm \<in> fst ` set basic_tools"
  shows "add_tool md5 now nm descr code (run_calls md5 cs (ToolManager_init Map.empty)) =
      (Inl (ValueError (''Tool '' @ [CHR 0x27] @ nm @ [CHR 0x27] @ '' already exists'')),
       run_calls md5 cs (ToolManager_init Map.empty))
    \<and> update_tool md5 now nm code descr (run_calls md5 cs (ToolManager_init Map.empty)) =
      (Inl (ValueError (''Tool '' @ [CHR 0x27] @ nm @ [CHR 0x27] @ '' is not an extended tool'')),
       run_calls md5 cs (ToolManager_init Map.empty))
    \<and> remove_tool nm (run_calls md5 cs (ToolManager_init Map.empty)) =
      (Inl (ValueError (''Tool '' @ [CHR 0x27] @ nm @ [CHR 0x27] @ '' is not an extended tool'')),
       run_calls md5 cs (ToolManager_init Map.empty))"
proof -
  have "basic_names_kept (run_calls md5 cs (ToolManager_init Map.empty))"
    by (rule basic_names_kept_run) (rule basic_names_kept_init)
  with assms show ?thesis
    by (auto simp: basic_names_kept_def add_tool_def update_tool_def remove_tool_def)
qed

text \<open>C5, witness: the read-file tool on a fresh manager.\<close>

theorem basic_tool_immutable_witness:
  "remove_tool ''read_file'' (ToolManager_init Map.empty) =
     (Inl (ValueError (''Tool '' @ [CHR 0x27] @ ''read_file'' @ [CHR 0x27] @
        '' is not an extended tool'')), ToolManager_init Map.empty)"
proof -
  have "''read_file'' \<in> fst ` set basic_tools" by (simp add: basic_tools_def)
  from basic_tool_immutable [OF this, of "\<lambda>code. code" "[]" "[]" "[]" "[]"]
  show ?thesis by simp
qed

text \<open>
  C5, counterexample to the claim as stated: \<open>add\<close> with the name of the read-file tool
  on a fresh manager fails, but not with the "is not an extended tool" error.
\<close>

theorem add_basic_tool_counterexample:
  "''read_file'' \<in> fst ` set basic_tools \<and>
   fst (add_tool (\<lambda>code. code) ''2024-01-01T00:00:00'' ''read_file'' ''d'' ''pass''
          (ToolManager_init Map.empty)) =
     Inl (ValueError (''Tool '' @ [CHR 0x27] @ ''read_file'' @ [CHR 0x27] @ '' already exists'')) \<and>
   fst (add_tool (\<lambda>code. code) ''2024-01-01T00:00:00'' ''read_file'' ''d'' ''pass''
          (ToolManager_init Map.empty)) \<noteq>
     Inl (ValueError (''Tool '' @ [CHR 0x27] @ ''read_file'' @ [CHR 0x27] @
        '' is not an extended tool''))"
  by (simp add: add_tool_def ToolManager_init_def basic_tools_def)

text \<open>
  C9. For every tool name, every successful \<open>add\<close> or \<open>update\<close> appends exactly one new
  version entry to that name's version log: the log afterwards is the log before
  followed by one entry whose version number is the decimal numeral of the previous
  count plus one and whose checksum is the hash of the submitted code; no other name's
  version log changes. An \<open>add\<close> succeeds exactly when the name is not in the tool table
  and the code passes validation; an \<open>update\<close> succeeds exactly when the name is an
  extended tool of this manager and the code passes validation.
\<close>

theorem version_appended:
  "(add_tool md5 now nm descr code s = (Inr (), s') \<or>
    update_tool md5 now nm code descr s = (Inr (), s') \<longrightarrow>
      tool_versions s' nm =
        Some (get_tool_versions s nm @
          [\<lparr>version = str_nat (length (get_tool_versions s nm) + 1), timestamp = now,
            checksum = md5 code, description = descr\<rparr>])
      \<and> (\<forall>other. other \<noteq> nm \<longrightarrow> tool_versions s' other = tool_versions s other))
   \<and> (fst (add_tool md5 now nm descr code s) = Inr () \<longleftrightarrow>
        tools s nm = None \<and> validate_tool_code code = Inr ())
   \<and> (fst (update_tool md5 now nm code descr s) = Inr () \<longleftrightarrow>
        EXTENDED_TOOLS s nm \<noteq> None \<and> tools s nm \<noteq> None \<and> validate_tool_code code = Inr ())"
proof (intro conjI impI)
  assume "add_tool md5 now nm descr code s = (Inr (), s') \<or>
    update_tool md5 now nm code descr s = (Inr (), s')"
  then show "tool_versions s' nm =
        Some (get_tool_versions s nm @
          [\<lparr>version = str_nat (length (get_tool_versions s nm) + 1), timestamp = now,
            checksum = md5 code, description = descr\<rparr>])"
    by (auto simp: add_tool_def update_tool_def create_new_version_def get_tool_versions_def
        split: if_splits sum.splits option.splits)
next
  assume "add_tool md5 now nm descr code s = (Inr (), s') \<or>
    update_tool md5 now nm code descr s = (Inr (), s')"
  then show "\<forall>other. other \<noteq> nm \<longrightarrow> tool_versions s' other = tool_versions s other"
    by (auto simp: add_tool_def update_tool_def create_new_version_def
        split: if_splits sum.splits option.splits)
next
  show "fst (add_tool md5 now nm descr code s) = Inr () \<longleftrightarrow>
        tools s nm = None \<and> validate_tool_code code = Inr ()"
    by (auto simp: add_tool_def split: sum.splits)
next
  show "fst (update_tool md5 now nm code descr s) = Inr () \<longleftrightarrow>
        EXTENDED_TOOLS s nm \<noteq> None \<and> tools s nm \<noteq> None \<and> validate_tool_code code = Inr ()"
    by (auto simp: update_tool_def split: sum.splits option.splits)
qed

lemma greet_added_eq:
  "greet_added =
     \<lparr>tools = (map_of basic_tools)(''greet'' \<mapsto> ExtendedTool ''greet'' ''Say hello'' True),
      EXTENDED_TOOLS = [''greet'' \<mapsto> ExtendedTool ''greet'' ''Say hello'' True],
      tool_versions =
        [''greet'' \<mapsto> [\<lparr>version = ''1'', timestamp = ''2024-01-01T00:00:00'',
           checksum = ''print(1)'', description = ''Say hello''\<rparr>]]\<rparr>"
  by (simp add: greet_added_def add_tool_def ToolManager_init_def basic_tools_def
      validate_tool_code_def contains_def str_find_def create_new_version_def
      get_tool_versions_def str_nat.simps digit_char_def)

lemma valid_print2: "validate_tool_code ''print(2)'' = Inr ()"
  by (simp add: validate_tool_code_def contains_def str_find_def)

text \<open>
  C9, witness: on a manager to which the tool \<open>greet\<close> has been added, whose log holds
  version 1, an \<open>update\<close> of \<open>greet\<close> succeeds and appends version 2 with the checksum of
  the new code.
\<close>

theorem version_appended_witness:
  "fst (update_tool (\<lambda>code. code) ''2024-02-02T00:00:00'' ''greet'' ''print(2)'' ''Say hi''
          greet_added) = Inr () \<and>
   tool_versions
     (snd (update_tool (\<lambda>code. code) ''2024-02-02T00:00:00'' ''greet'' ''print(2)'' ''Say hi''
        greet_added)) ''greet'' =
   Some [\<lparr>version = ''1'', timestamp = ''2024-01-01T00:00:00'', checksum = ''print(1)'',
          description = ''Say hello''\<rparr>,
         \<lparr>version = ''2'', timestamp = ''2024-02-02T00:00:00'', checksum = ''print(2)'',
          description = ''Say hi''\<rparr>]"
proof -
  let ?r = "update_tool (\<lambda>code. code) ''2024-02-02T00:00:00'' ''greet'' ''print(2)'' ''Say hi''
              greet_added"
  note appended = version_appended [of "\<lambda>code. code" "''2024-02-02T00:00:00''" "''greet''" "''Say hi''"
      "''print(2)''" greet_added "snd ?r"]
  have "EXTENDED_TOOLS greet_added ''greet'' \<noteq> None" "tools greet_added ''greet'' \<noteq> None"
    by (simp_all add: greet_added_eq)
  with appended valid_print2 have ok: "fst ?r = Inr ()" by blast
  then have "?r = (Inr (), snd ?r)" by (metis prod.collapse)
  with appended have "tool_versions (snd ?r) ''greet'' =
        Some (get_tool_versions greet_added ''greet'' @
          [\<lparr>version = str_nat (length (get_tool_versions greet_added ''greet'') + 1),
            timestamp = ''2024-02-02T00:00:00'', checksum = ''print(2)'',
            description = ''Say hi''\<rparr>])" by blast
  with ok show ?thesis
    by (simp add: get_tool_versions_def greet_added_eq str_nat.simps digit_char_def)
qed

section \<open>Properties of the terminal processes\<close>

subsection \<open>The hot timer\<close>

lemma find_aux_sublist: "(\<exists>k. find_aux sub cs i = Some k) \<longleftrightarrow> sublist sub cs"
  by (induction cs arbitrary: i) (simp_all add: sublist_Cons_right)

lemma contains_sublist: "contains sub s \<longleftrightarrow> sublist sub s"
  by (simp add: contains_def str_find_def find_aux_sublist)

lemma sublist_lower: "sublist xs ys \<Longrightarrow> sublist (lower xs) (lower ys)"
  by (auto simp: sublist_def lower_def) (rule exI, rule exI, rule refl)

lemma build_complete_not_compiling:
  assumes "contains ''Build complete'' d"
  shows "\<not> is_compiling d"
proof -
  from assms have "sublist (lower ''Build complete'') (lower d)"
    by (simp add: contains_sublist sublist_lower)
  moreover have "sublist ''complete'' (lower ''Build complete'')" by code_simp
  ultimately have "sublist ''complete'' (lower d)"
    by (rule sublist_order.order_trans [rotated])
  then show ?thesis
    by (simp add: is_compiling_def marker_nullifiers_def contains_sublist)
qed

text \<open>
  \<open>_update_hot_state\<close> by itself arms the timer with the long timeout exactly for a
  chunk that holds a compiling marker and no nullifier, and with the normal timeout
  otherwise.
\<close>

lemma update_hot_state_timer:
  "hot_timer (update_hot_state d s) =
     Some (Scheduled (if is_compiling d then PROCESS_HOT_TIMEOUT_COMPILING
                      else PROCESS_HOT_TIMEOUT_NORMAL))"
  by (simp add: update_hot_state_def set_hot_timer_def)

lemma build_complete_timer:
  "contains ''Build complete'' d \<Longrightarrow>
   hot_timer (update_hot_state d (update_hot_state ''compiling'' s)) =
     Some (Scheduled PROCESS_HOT_TIMEOUT_NORMAL)"
  by (simp add: update_hot_state_timer build_complete_not_compiling)

text \<open>
  C6, the code at a failing input. The claim: every output chunk fed to a terminal
  session re-arms the hot timer, with 15 seconds when the chunk holds a compiling
  marker and no terminating keyword. A session that has just been run is fed the chunk
  \<open>Compiling main.c\<close>, which holds a compiling marker and no nullifier:
  \<open>_process_output\<close> raises \<open>AttributeError\<close> in \<open>_emit_if_eol\<close>, because \<open>_buffer\<close> was
  never assigned, before it reaches \<open>_update_hot_state\<close>, and the timer is still the
  one of 2 seconds that \<open>run\<close> armed.
\<close>

theorem chunk_not_rearmed:
  "is_compiling ''Compiling main.c'' \<and>
   fst (process_output ''Compiling main.c'' (run compiling_process TerminalProcess_init)) =
     Inl (AttributeError ''_buffer'') \<and>
   hot_timer (snd (process_output ''Compiling main.c'' (run compiling_process TerminalProcess_init))) =
     Some (Scheduled PROCESS_HOT_TIMEOUT_NORMAL) \<and>
   PROCESS_HOT_TIMEOUT_NORMAL \<noteq> PROCESS_HOT_TIMEOUT_COMPILING"
proof -
  have "is_compiling ''Compiling main.c''" by code_simp
  moreover have "buffer (run compiling_process TerminalProcess_init) = None"
    by (simp add: run_def set_hot_timer_def TerminalProcess_init_def)
  moreover have "hot_timer (run compiling_process TerminalProcess_init) =
      Some (Scheduled PROCESS_HOT_TIMEOUT_NORMAL)"
    by (simp add: run_def set_hot_timer_def)
  ultimately show ?thesis
    by (simp add: process_output_def emit_if_eol_def PROCESS_HOT_TIMEOUT_NORMAL_def
        PROCESS_HOT_TIMEOUT_COMPILING_def)
qed

lemma emit_lines_buffer: "buffer (emit_lines b s) \<noteq> None"
  by (induction b s rule: emit_lines.induct)
    (simp add: emit_lines.simps [of b s for b s] split: option.splits)

lemma process_output_Inr:
  assumes "process_output d s = (Inr u, s')"
  shows "buffer s \<noteq> None \<and> buffer s' \<noteq> None \<and>
         hot_timer s' = Some (Scheduled (hot_timeout (handle_vscode_sequences (strip_ansi d))))"
  using assms emit_lines_buffer
  by (auto simp: process_output_def emit_if_eol_def update_hot_state_def set_hot_timer_def
      hot_timeout_def split: option.splits)

lemma process_output_buffered:
  "buffer s \<noteq> None \<Longrightarrow> fst (process_output d s) = Inr ()"
  by (auto simp: process_output_def emit_if_eol_def split: option.splits)

lemma read_lines_timer:
  "read_lines ds s = (Inr u, s') \<Longrightarrow> ds \<noteq> [] \<Longrightarrow>
   hot_timer s' = Some (Scheduled (hot_timeout (handle_vscode_sequences (strip_ansi (last ds)))))"
proof (induction ds arbitrary: s)
  case Nil
  then show ?case by simp
next
  case (Cons d ds)
  from Cons.prems(1) obtain u1 s1 where p: "process_output d s = (Inr u1, s1)"
    and r: "read_lines ds s1 = (Inr u, s')"
    by (auto split: prod.splits sum.splits)
  show ?case
  proof (cases "ds = []")
    case True
    with r have "s' = s1" by simp
    with process_output_Inr [OF p] True show ?thesis by simp
  next
    case False
    from Cons.IH [OF r False] False show ?thesis by simp
  qed
qed

lemma read_lines_buffered:
  "buffer s \<noteq> None \<Longrightarrow> fst (read_lines ds s) = Inr ()"
proof (induction ds arbitrary: s)
  case Nil
  then show ?case by simp
next
  case (Cons d ds)
  obtain r s1 where p: "process_output d s = (r, s1)" by (cases "process_output d s")
  with process_output_buffered [OF Cons.prems, of d] have r: "r = Inr ()" by simp
  with p process_output_Inr [of d s "()" s1] have "buffer s1 \<noteq> None" by simp
  from Cons.IH [OF this] p r show ?case by simp
qed

lemma reader_reaches_eof:
  assumes "popen s = Some p"
  shows "fst (read_output s) = Inr () \<longleftrightarrow> stdout p = [] \<or> buffer s \<noteq> None"
proof (cases "stdout p")
  case Nil
  with assms show ?thesis by (simp add: read_output_def)
next
  case (Cons d ds)
  show ?thesis
  proof (cases "buffer s")
    case None
    then have "fst (read_lines (d # ds) s) = Inl (AttributeError ''_buffer'')"
      by (simp add: process_output_def emit_if_eol_def)
    with assms Cons None show ?thesis
      by (auto simp: read_output_def split: prod.splits sum.splits)
  next
    case (Some b)
    then have "fst (read_lines (stdout p) s) = Inr ()" by (simp add: read_lines_buffered)
    with assms Some show ?thesis
      by (auto simp: read_output_def split: prod.splits sum.splits)
  qed
qed

text \<open>
  C2 (as amended). For every terminal session whose reader reaches the end of the
  subprocess's output stream, as it does for every subprocess that exits without
  having written anything, the reader emits the completed and the continue event and
  then clears the hot flag itself, at that moment, whether or not the most recently
  armed hot timer has expired: the timer stays scheduled as the last chunk armed it
  (as it was before the read, when there was no chunk), and its later expiry finds the
  flag already false.
\<close>

theorem eof_clears_hot:
  assumes "popen s = Some p"
  shows "(stdout p = [] \<longrightarrow>
            read_output s =
              (Inr (),
               s\<lparr>emitted := emitted s @ [TerminalEvent COMPLETED None, TerminalEvent CONTINUE None],
                 is_hot := False\<rparr>))
    \<and> (read_output s = (Inr (), s') \<longrightarrow>
          \<not> is_hot s' \<and> \<not> is_hot (timer_expires s') \<and>
          emitted s' =
            emitted (snd (read_lines (stdout p) s)) @
            [TerminalEvent COMPLETED None, TerminalEvent CONTINUE None] \<and>
          hot_timer s' =
            (if stdout p = [] then hot_timer s
             else Some (Scheduled
               (hot_timeout (handle_vscode_sequences (strip_ansi (last (stdout p))))))))"
proof (intro conjI impI)
  assume "stdout p = []"
  with assms show "read_output s =
      (Inr (),
       s\<lparr>emitted := emitted s @ [TerminalEvent COMPLETED None, TerminalEvent CONTINUE None],
         is_hot := False\<rparr>)"
    by (simp add: read_output_def emit_def)
next
  assume r: "read_output s = (Inr (), s')"
  with assms obtain s1 where l: "read_lines (stdout p) s = (Inr (), s1)"
    and s': "s' = (emit (TerminalEvent CONTINUE None)
                     (emit (TerminalEvent COMPLETED None) s1))\<lparr>is_hot := False\<rparr>"
    by (auto simp: read_output_def split: prod.splits sum.splits)
  show "\<not> is_hot s'" by (simp add: s')
  show "\<not> is_hot (timer_expires s')"
    by (simp add: s' timer_expires_def split: option.splits TimerHandle.splits)
  show "emitted s' = emitted (snd (read_lines (stdout p) s)) @
      [TerminalEvent COMPLETED None, TerminalEvent CONTINUE None]"
    by (simp add: s' l emit_def)
  show "hot_timer s' =
      (if stdout p = [] then hot_timer s
       else Some (Scheduled
         (hot_timeout (handle_vscode_sequences (strip_ansi (last (stdout p)))))))"
  proof (cases "stdout p = []")
    case True
    with l show ?thesis by (simp add: s' emit_def)
  next
    case False
    from read_lines_timer [OF l False] False show ?thesis by (simp add: s' emit_def)
  qed
qed

lemma buffered_session_read:
  "fst (read_output buffered_session) = Inr ()"
proof -
  have "popen buffered_session = Some compiling_process"
    by (simp add: buffered_session_def run_def set_hot_timer_def)
  from reader_reaches_eof [OF this] show ?thesis by (simp add: buffered_session_def)
qed

text \<open>
  C2, witness: a session that has just been run on a process that exits without
  output; and a session whose \<open>_buffer\<close> attribute holds the empty string, on a process
  that writes \<open>Compiling main.c\<close> and exits, where the reader clears the hot flag while
  the 15-second timer of that chunk is scheduled.
\<close>

theorem eof_clears_hot_witness:
  "read_output (run quiet_process TerminalProcess_init) =
     (Inr (),
      (run quiet_process TerminalProcess_init)
        \<lparr>emitted := [TerminalEvent COMPLETED None, TerminalEvent CONTINUE None],
         is_hot := False\<rparr>) \<and>
   \<not> is_hot (snd (read_output buffered_session)) \<and>
   hot_timer (snd (read_output buffered_session)) =
     Some (Scheduled PROCESS_HOT_TIMEOUT_COMPILING)"
proof -
  have 1: "popen (run quiet_process TerminalProcess_init) = Some quiet_process"
    by (simp add: run_def set_hot_timer_def)
  have e: "stdout quiet_process = []" by (simp add: quiet_process_def)
  have part1: "read_output (run quiet_process TerminalProcess_init) =
     (Inr (),
      (run quiet_process TerminalProcess_init)
        \<lparr>emitted := [TerminalEvent COMPLETED None, TerminalEvent CONTINUE None],
         is_hot := False\<rparr>)"
    using eof_clears_hot [OF 1] e by (simp add: run_def set_hot_timer_def TerminalProcess_init_def)
  have 2: "popen buffered_session = Some compiling_process"
    by (simp add: buffered_session_def run_def set_hot_timer_def)
  have "read_output buffered_session = (Inr (), snd (read_output buffered_session))"
    using buffered_session_read by (metis prod.collapse)
  with eof_clears_hot [OF 2, of "snd (read_output buffered_session)"]
  have "\<not> is_hot (snd (read_output buffered_session))"
    and t: "hot_timer (snd (read_output buffered_session)) =
      (if stdout compiling_process = [] then hot_timer buffered_session
       else Some (Scheduled (hot_timeout
         (handle_vscode_sequences (strip_ansi (last (stdout compiling_process)))))))"
    by blast+
  moreover have "handle_vscode_sequences (strip_ansi ''Compiling main.c'') = ''Compiling main.c''"
    by code_simp
  moreover have "is_compiling ''Compiling main.c''" by code_simp
  ultimately show ?thesis using part1
    by (simp add: compiling_process_def hot_timeout_def)
qed

text \<open>
  C2, counterexample to the claim as stated: a session is run on a process that exits
  without output. It is hot after \<open>run\<close>; the reader reaches the end of the stream, and
  afterwards the hot flag is false although the 2-second timer that \<open>run\<close> armed is
  still scheduled and has not expired.
\<close>

theorem eof_clears_hot_counterexample:
  "is_hot (run quiet_process TerminalProcess_init) \<and>
   fst (read_output (run quiet_process TerminalProcess_init)) = Inr () \<and>
   hot_timer (snd (read_output (run quiet_process TerminalProcess_init))) =
     Some (Scheduled PROCESS_HOT_TIMEOUT_NORMAL) \<and>
   \<not> is_hot (snd (read_output (run quiet_process TerminalProcess_init)))"
  by (simp add: read_output_def run_def set_hot_timer_def quiet_process_def emit_def)

subsection \<open>Looking up terminals\<close>

lemma is_hot_terminate [simp]: "is_hot (heap (terminate_process r m) q) = is_hot (heap m q)"
  by (simp add: terminate_process_def split: option.splits)

lemma terminals_terminate [simp]: "terminals (terminate_process r m) = terminals m"
  by (simp add: terminate_process_def split: option.splits)

lemma processes_terminate [simp]: "processes (terminate_process r m) = processes m"
  by (simp add: terminate_process_def split: option.splits)

lemma is_hot_remove [simp]: "is_hot (heap (remove_terminal t m) q) = is_hot (heap m q)"
  by (simp add: remove_terminal_def split: option.splits)

lemma terminals_remove [simp]:
  "terminals (remove_terminal t m) = AList.delete t (terminals m)"
  by (simp add: remove_terminal_def split: option.splits)

lemma processes_remove [simp]:
  "processes (remove_terminal t m) = AList.delete t (processes m)"
  by (simp add: remove_terminal_def map_of_eq_None_iff split: option.splits)
















section \<open>Properties of the diff view provider\<close>

subsection \<open>File-system facts\<close>

lemma mkdir_Inr:
  "mkdir d fs = Inr fs' \<Longrightarrow>
   map_of fs d = None \<and> d \<noteq> [] \<and> \<not> has_nul d \<and> walk [] d fs = None \<and>
   fs' = AList.update d Dir fs"
  by (auto simp: mkdir_def path_exists_def split: if_splits option.splits)

lemma write_file_Inr:
  "write_file p text fs = Inr fs' \<Longrightarrow>
   \<not> has_nul p \<and> walk [] p fs = None \<and> map_of fs p \<noteq> Some Dir \<and>
   fs' = AList.update p (File text) fs"
  by (auto simp: write_file_def split: if_splits option.splits)


lemma read_local_file_Inr:
  "read_local_file p fs = Inr text \<Longrightarrow>
   \<not> has_nul p \<and> walk [] p fs = None \<and>
   (\<exists>c. map_of fs p = Some (File c) \<and> text = universal_newlines c)"
  by (auto simp: read_local_file_def split: if_splits option.splits node.splits)








lemma parents_shorter: "d \<in> set (parents p) \<Longrightarrow> length d < length p"
proof (induction p arbitrary: d rule: parents.induct)
  case (1 p)
  show ?case
  proof (cases "p = []")
    case True
    with "1.prems" show ?thesis by (simp add: parents.simps)
  next
    case False
    with "1.prems" have "d = butlast p \<or> d \<in> set (parents (butlast p))"
      by (simp add: parents.simps [of p])
    then show ?thesis
    proof
      assume "d = butlast p"
      with False show ?thesis by simp
    next
      assume "d \<in> set (parents (butlast p))"
      from "1.IH" [OF False this] have "length d < length (butlast p)" .
      then show ?thesis by simp
    qed
  qed
qed

lemma distinct_parents: "distinct (parents p)"
proof (induction p rule: parents.induct)
  case (1 p)
  show ?case
  proof (cases "p = []")
    case True
    then show ?thesis by (simp add: parents.simps)
  next
    case False
    have "butlast p \<notin> set (parents (butlast p))"
      using parents_shorter [of "butlast p" "butlast p"] by auto
    with "1.IH" [OF False] False show ?thesis by (simp add: parents.simps [of p])
  qed
qed




lemma create_dirs_loop_result:
  assumes "create_dirs_loop ds created fs = (Inr c, fs')" and "distinct ds"
  shows "c = created @ filter (\<lambda>d. map_of fs d = None) ds \<and>
         (\<forall>q. map_of fs' q = (if q \<in> set ds \<and> map_of fs q = None then Some Dir else map_of fs q))"
  using assms
proof (induction ds arbitrary: created fs)
  case Nil
  then show ?case by simp
next
  case (Cons d ds)
  show ?case
  proof (cases "map_of fs d = None")
    case False
    with Cons.prems have "create_dirs_loop ds created fs = (Inr c, fs')"
      by (simp add: path_exists_def)
    from Cons.IH [OF this] Cons.prems(2) False show ?thesis by auto
  next
    case True
    with Cons.prems obtain fs1 where mk: "mkdir d fs = Inr fs1"
      and rec: "create_dirs_loop ds (created @ [d]) fs1 = (Inr c, fs')"
      by (auto simp: path_exists_def split: sum.splits)
    from mkdir_Inr [OF mk] have fs1: "fs1 = AList.update d Dir fs" by simp
    then have m1: "map_of fs1 q = (if q = d then Some Dir else map_of fs q)" for q
      by (simp add: update_conv')
    from Cons.prems(2) have nd: "d \<notin> set ds" and dist: "distinct ds" by simp_all
    from nd have same: "filter (\<lambda>x. map_of fs1 x = None) ds = filter (\<lambda>x. map_of fs x = None) ds"
      by (intro filter_cong) (auto simp: m1)
    from Cons.IH [OF rec dist] have
      c: "c = (created @ [d]) @ filter (\<lambda>x. map_of fs1 x = None) ds" and
      m: "\<And>q. map_of fs' q = (if q \<in> set ds \<and> map_of fs1 q = None then Some Dir else map_of fs1 q)"
      by simp_all
    from c same True have "c = created @ filter (\<lambda>x. map_of fs x = None) (d # ds)" by simp
    moreover have "map_of fs' q =
        (if q \<in> set (d # ds) \<and> map_of fs q = None then Some Dir else map_of fs q)" for q
      using nd True by (auto simp: m m1)
    ultimately show ?thesis by blast
  qed
qed


subsection \<open>Opening a file\<close>

text \<open>
  C3 (as amended). For every path, \<open>open\<close> takes the edit kind from the provider's
  \<open>edit_type\<close> field, which the caller sets before \<open>open\<close> and which \<open>open\<close> leaves as it
  is; it does not look at the disk for it. When \<open>edit_type\<close> is \<open>modify\<close> and \<open>open\<close>
  completes, the target is a text file and the original content is that file's current
  content as text mode reads it, every line end an \<open>LF\<close>. Otherwise the session is a
  Create session: when \<open>open\<close> completes, the original content is snapshotted as the
  empty string, and a target that did not exist is an empty placeholder file
  afterwards. Whenever \<open>open\<close> completes, the created-directories list records exactly
  the parent directories that were missing before, the nearest first, and each of them
  is a directory afterwards.
\<close>

theorem open_uses_edit_type:
  assumes "open_diff rel (s, fs) = (Inr (), s1, fs1)"
  shows "edit_type s1 = edit_type s
    \<and> (edit_type s = Some ''modify'' \<longrightarrow>
         (\<exists>c. map_of fs (cwd s @ rel) = Some (File c) \<and>
              original_content s1 = Some (universal_newlines c) \<and>
              map_of fs1 (cwd s @ rel) = Some (File c)))
    \<and> (edit_type s \<noteq> Some ''modify'' \<longrightarrow>
         original_content s1 = Some [] \<and>
         (map_of fs (cwd s @ rel) = None \<longrightarrow> map_of fs1 (cwd s @ rel) = Some (File [])))
    \<and> created_dirs s1 = filter (\<lambda>d. map_of fs d = None) (parents (cwd s @ rel))
    \<and> (\<forall>d \<in> set (created_dirs s1). map_of fs1 d = Some Dir)"
proof -
  let ?P = "cwd s @ rel"
  from assms obtain original created fs' where
    orig: "(if edit_type s = Some ''modify'' then read_local_file ?P fs else Inr []) = Inr original"
    and cr: "create_dirs_loop (parents ?P) [] fs = (Inr created, fs')"
    and wr: "(if edit_type s \<noteq> Some ''modify'' then write_file ?P [] fs' else Inr fs') = Inr fs1"
    and s1: "s1 = open_view rel (s\<lparr>rel_path := Some rel, is_editing := True,
               original_content := Some original, created_dirs := created\<rparr>)"
    by (auto simp: open_diff_def create_directories_for_file_def split: sum.splits prod.splits)
  from create_dirs_loop_result [OF cr distinct_parents] have
    created: "created = filter (\<lambda>d. map_of fs d = None) (parents ?P)" and
    m': "\<And>q. map_of fs' q =
          (if q \<in> set (parents ?P) \<and> map_of fs q = None then Some Dir else map_of fs q)"
    by simp_all
  have notin: "?P \<notin> set (parents ?P)" using parents_shorter [of ?P ?P] by auto
  have dirs': "\<forall>d \<in> set created. map_of fs' d = Some Dir" by (simp add: created m')
  have fields: "edit_type s1 = edit_type s" "original_content s1 = Some original"
    "created_dirs s1 = created" by (simp_all add: s1 open_view_def)
  show ?thesis
  proof (cases "edit_type s = Some ''modify''")
    case True
    with orig have "read_local_file ?P fs = Inr original" by simp
    from read_local_file_Inr [OF this] obtain c where
      "map_of fs ?P = Some (File c)" "original = universal_newlines c" by blast
    moreover from True wr have "fs1 = fs'" by simp
    ultimately show ?thesis using True fields created dirs' notin by (simp add: m')
  next
    case False
    with orig have o: "original = []" by simp
    from False wr have "fs1 = AList.update ?P (File []) fs'" by (simp add: write_file_Inr)
    then have m1: "map_of fs1 q = (if q = ?P then Some (File []) else map_of fs' q)" for q
      by (simp add: update_conv')
    have "\<forall>d \<in> set created. d \<noteq> ?P" using notin by (auto simp: created)
    with dirs' have "\<forall>d \<in> set created. map_of fs1 d = Some Dir" by (simp add: m1)
    with False fields o created show ?thesis by (simp add: m1)
  qed
qed

lemma open_crlf_file:
  "open_diff [''crlf''] (modify_session, crlf_fs) =
     (Inr (),
      open_view [''crlf''] (modify_session\<lparr>rel_path := Some [''crlf''], is_editing := True,
          original_content := Some [CHR ''a'', CHR 0x0A, CHR ''b''], created_dirs := []\<rparr>),
      crlf_fs)"
  by (simp add: open_diff_def modify_session_def DiffViewProvider_init_def crlf_fs_def
      workspace_fs_def read_local_file_def create_directories_for_file_def parents.simps
      path_exists_def has_nul_def name_bytes_def)

lemma open_new_file:
  "open_diff [''a'', ''g''] (DiffViewProvider_init [''w''], workspace_fs) =
     (Inr (),
      open_view [''a'', ''g''] ((DiffViewProvider_init [''w''])\<lparr>rel_path := Some [''a'', ''g''],
          is_editing := True, original_content := Some [],
          created_dirs := [[''w'', ''a'']]\<rparr>),
      workspace_fs @ [([''w'', ''a''], Dir), ([''w'', ''a'', ''g''], File [])])"
  by (simp add: open_diff_def DiffViewProvider_init_def workspace_fs_def write_file_def
      create_directories_for_file_def parents.simps path_exists_def mkdir_def
      has_nul_def name_bytes_def)

text \<open>
  C3, witness: a Modify session opens a file whose lines end in \<open>CR LF\<close>, and a provider
  as constructed opens \<open>a/g\<close> in the workspace, where the directory \<open>a\<close> is missing.
\<close>

theorem open_uses_edit_type_witness:
  "original_content (fst (snd (open_diff [''crlf''] (modify_session, crlf_fs)))) =
     Some [CHR ''a'', CHR 0x0A, CHR ''b''] \<and>
   original_content
     (fst (snd (open_diff [''a'', ''g''] (DiffViewProvider_init [''w''], workspace_fs)))) =
     Some [] \<and>
   created_dirs
     (fst (snd (open_diff [''a'', ''g''] (DiffViewProvider_init [''w''], workspace_fs)))) =
     [[''w'', ''a'']] \<and>
   map_of (snd (snd (open_diff [''a'', ''g''] (DiffViewProvider_init [''w''], workspace_fs))))
     [''w'', ''a'', ''g''] = Some (File [])"
proof -
  have m: "open_diff [''crlf''] (modify_session, crlf_fs) =
     (Inr (), fst (snd (open_diff [''crlf''] (modify_session, crlf_fs))),
      snd (snd (open_diff [''crlf''] (modify_session, crlf_fs))))"
    by (simp add: open_crlf_file)
  have c: "open_diff [''a'', ''g''] (DiffViewProvider_init [''w''], workspace_fs) =
     (Inr (), fst (snd (open_diff [''a'', ''g''] (DiffViewProvider_init [''w''], workspace_fs))),
      snd (snd (open_diff [''a'', ''g''] (DiffViewProvider_init [''w''], workspace_fs))))"
    by (simp add: open_new_file)
  have mod: "edit_type modify_session = Some ''modify''" "cwd modify_session = [''w'']"
    by (simp_all add: modify_session_def DiffViewProvider_init_def)
  have stored: "map_of crlf_fs [''w'', ''crlf''] = Some (File [CHR ''a'', CHR 0x0D, CHR 0x0A, CHR ''b''])"
    by (simp add: crlf_fs_def workspace_fs_def)
  have cre: "edit_type (DiffViewProvider_init [''w'']) \<noteq> Some ''modify''"
    "cwd (DiffViewProvider_init [''w'']) = [''w'']"
    by (simp_all add: DiffViewProvider_init_def)
  have missing: "map_of workspace_fs [''w'', ''a'', ''g''] = None"
    "filter (\<lambda>d. map_of workspace_fs d = None) (parents [''w'', ''a'', ''g'']) = [[''w'', ''a'']]"
    by (simp_all add: workspace_fs_def parents.simps)
  from open_uses_edit_type [OF m] mod stored
  have 1: "original_content (fst (snd (open_diff [''crlf''] (modify_session, crlf_fs)))) =
     Some [CHR ''a'', CHR 0x0A, CHR ''b'']" by auto
  from open_uses_edit_type [OF c] cre missing
  have "original_content
     (fst (snd (open_diff [''a'', ''g''] (DiffViewProvider_init [''w''], workspace_fs)))) =
     Some [] \<and>
   created_dirs
     (fst (snd (open_diff [''a'', ''g''] (DiffViewProvider_init [''w''], workspace_fs)))) =
     [[''w'', ''a'']] \<and>
   map_of (snd (snd (open_diff [''a'', ''g''] (DiffViewProvider_init [''w''], workspace_fs))))
     [''w'', ''a'', ''g''] = Some (File [])" by simp
  with 1 show ?thesis by simp
qed

lemma open_existing_file:
  "open_diff [''f''] (DiffViewProvider_init [''w''], workspace_fs) =
     (Inr (),
      open_view [''f''] ((DiffViewProvider_init [''w''])\<lparr>rel_path := Some [''f''],
          is_editing := True, original_content := Some [], created_dirs := []\<rparr>),
      [([], Dir), ([''w''], Dir), ([''w'', ''f''], File [])])"
  by (simp add: open_diff_def DiffViewProvider_init_def workspace_fs_def write_file_def
      create_directories_for_file_def parents.simps path_exists_def has_nul_def name_bytes_def)

text \<open>
  C3, counterexample to the claim as stated: the file \<open>w/f\<close> exists on disk with the
  content \<open>abc\<close> at open time, and the provider is as constructed. \<open>open\<close> completes;
  the session is not a Modify session, and the original content is the empty string,
  not the file's content.
\<close>

theorem open_existing_file_counterexample:
  "map_of workspace_fs [''w'', ''f''] = Some (File ''abc'') \<and>
   fst (open_diff [''f''] (DiffViewProvider_init [''w''], workspace_fs)) = Inr () \<and>
   edit_type (fst (snd (open_diff [''f''] (DiffViewProvider_init [''w''], workspace_fs)))) =
     None \<and>
   original_content (fst (snd (open_diff [''f''] (DiffViewProvider_init [''w''], workspace_fs)))) =
     Some [] \<and>
   Some [] \<noteq> Some ''abc''"
  unfolding open_existing_file
  by (simp add: workspace_fs_def open_view_def DiffViewProvider_init_def)

subsection \<open>Create, then revert\<close>









subsection \<open>Updating and saving\<close>










end
